theory Spec2Isabelle
  imports Main "HOL-Library.Sublist"
begin

section \<open>Server Architect: the dialogue driver, plan extraction and the reconfiguration\<close>

text \<open>
  A shallow embedding of \<^verbatim>\<open>src/main.py\<close>. The bot keeps one dictionary,
  \<^verbatim>\<open>user_conversations\<close>, and talks to three outside parties: the generation
  service, the JSON parser and the Discord platform. The three are parameters of the
  model (the record \<open>env\<close>); everything the script itself decides is a function below.

  Conventions.
  \<^item> Every message the bot sends (to the DM channel, to the user, or as the answer to the
    slash command) is appended to \<open>sent\<close>, tagged with the receiving user. Delivery is
    taken to succeed, except the opening DM of \<^verbatim>\<open>start_command\<close>, whose failure
    the source handles.
  \<^item> Every call against the platform is appended to \<open>calls\<close> in the order issued,
    whether it succeeds or not; its outcome is what \<open>platform\<close> answers for the calls
    made so far and the call at hand.
  \<^item> Console output (\<^verbatim>\<open>print\<close>) reaches neither the user nor the platform and is
    left out.
  \<^item> One event is handled at a time.
\<close>

subsection \<open>Strings\<close>

text \<open>\<^verbatim>\<open>sub in s\<close> on strings.\<close>

fun contains :: "string \<Rightarrow> string \<Rightarrow> bool" where
  "contains sub [] = (sub = [])"
| "contains sub (c # cs) = (prefix sub (c # cs) \<or> contains sub cs)"

text \<open>
  \<^verbatim>\<open>s.partition(sep)\<close>, as an option: the text before and after the first occurrence
  of \<open>sep\<close>, or \<open>None\<close> when there is none.
\<close>

fun str_partition :: "string \<Rightarrow> string \<Rightarrow> (string \<times> string) option" where
  "str_partition sep [] = (if sep = [] then Some ([], []) else None)"
| "str_partition sep (c # cs) =
     (if prefix sep (c # cs) then Some ([], drop (length sep) (c # cs))
      else map_option (\<lambda>(b, a). (c # b, a)) (str_partition sep cs))"

lemma str_partition_shorter:
  "str_partition sep s = Some (b, a) \<Longrightarrow> sep \<noteq> [] \<Longrightarrow> length a < length s"
  by (induction s arbitrary: b) (auto split: if_splits)

text \<open>
  \<^verbatim>\<open>s.split(sep)\<close>: the pieces between the occurrences of \<open>sep\<close>, found left to
  right without overlap. Python raises ValueError for an empty separator; the script only
  splits at two fixed, non-empty separators, and the guard keeps the recursion total.
\<close>

function str_split :: "string \<Rightarrow> string \<Rightarrow> string list" where
  "str_split sep s =
     (if sep = [] then []
      else case str_partition sep s of
             None \<Rightarrow> [s]
           | Some (b, a) \<Rightarrow> b # str_split sep a)"
  by pat_completeness auto
termination
  by (relation "measure (\<lambda>(sep, s). length s)") (auto dest: str_partition_shorter)

declare str_split.simps [simp del]


text \<open>
  \<^verbatim>\<open>s.lower()\<close>. Only the letters A to Z are mapped; no character outside ASCII
  lowers to one of the letters of \<^verbatim>\<open>text\<close> or \<^verbatim>\<open>voice\<close>, the two strings the
  result is compared with.
\<close>

definition lower_char :: "char \<Rightarrow> char" where
  "lower_char c =
     (let n = (of_char c :: nat) in if 65 \<le> n \<and> n \<le> 90 then char_of (n + 32) else c)"

definition lower :: "string \<Rightarrow> string" where
  "lower s = map lower_char s"

subsection \<open>Exceptions and JSON values\<close>

text \<open>
  The exceptions the script meets. \<^verbatim>\<open>nextcord.Forbidden\<close> is a subclass of
  \<^verbatim>\<open>nextcord.HTTPException\<close>; both carry the platform's text. ValueError here is a
  ValueError that is not a JSONDecodeError.
\<close>

datatype exn =
    Forbidden string
  | HTTPException string
  | AttributeError
  | TypeError
  | IndexError
  | JSONDecodeError
  | ValueError
  | RecursionError
  | OtherException

fun is_http :: "exn \<Rightarrow> bool" where
  "is_http (Forbidden t) = True"
| "is_http (HTTPException t) = True"
| "is_http e = False"

fun http_text :: "exn \<Rightarrow> string" where
  "http_text (Forbidden t) = t"
| "http_text (HTTPException t) = t"
| "http_text e = []"

text \<open>
  What \<^verbatim>\<open>json.loads\<close> returns. An object is the list of its items, each key once.
  Numbers are integers here; a fraction behaves in this script like a non-zero integer.
\<close>

datatype json =
    JNull
  | JBool bool
  | JNum int
  | JStr string
  | JArr "json list"
  | JObj "(string \<times> json) list"

text \<open>Python's truth value of a parsed JSON value.\<close>

fun truthy :: "json \<Rightarrow> bool" where
  "truthy JNull = False"
| "truthy (JBool b) = b"
| "truthy (JNum n) = (n \<noteq> 0)"
| "truthy (JStr s) = (s \<noteq> [])"
| "truthy (JArr xs) = (xs \<noteq> [])"
| "truthy (JObj kv) = (kv \<noteq> [])"

fun is_object :: "json \<Rightarrow> bool" where
  "is_object (JObj kv) = True"
| "is_object v = False"

text \<open>\<^verbatim>\<open>d.get(key, default)\<close> on a dict.\<close>

definition dict_get :: "(string \<times> json) list \<Rightarrow> string \<Rightarrow> json \<Rightarrow> json" where
  "dict_get kv k d = (case map_of kv k of Some v \<Rightarrow> v | None \<Rightarrow> d)"

text \<open>
  \<^verbatim>\<open>for x in v\<close>: a list yields its elements, a string its characters, a dict its
  keys; anything else is not iterable.
\<close>

fun iterate :: "json \<Rightarrow> exn + json list" where
  "iterate (JArr xs) = Inr xs"
| "iterate (JStr s) = Inr (map (\<lambda>c. JStr [c]) s)"
| "iterate (JObj kv) = Inr (map (\<lambda>p. JStr (fst p)) kv)"
| "iterate v = Inl TypeError"

text \<open>\<^verbatim>\<open>xs[i]\<close> for a non-negative index.\<close>

definition list_index :: "'a list \<Rightarrow> nat \<Rightarrow> exn + 'a" where
  "list_index xs i = (if i < length xs then Inr (xs ! i) else Inl IndexError)"

subsection \<open>The conversation store, the platform and the world\<close>

text \<open>
  One turn of the history sent to the generation service. The first turn is the fixed
  \<^verbatim>\<open>SYSTEM_PROMPT\<close>, kept symbolic. An assistant turn stores the reply's content,
  which the service may leave empty (\<^verbatim>\<open>None\<close>).
\<close>

datatype turn =
    SystemTurn
  | UserTurn string
  | AssistantTurn "string option"

record session =
  messages :: "turn list"
  guild_id :: nat

record role =
  role_id :: nat
  role_name :: string
  is_default :: bool
  is_integration :: bool

text \<open>
  The handle \<^verbatim>\<open>bot.get_guild\<close> returns: the cached name and roles, and the
  channels \<^verbatim>\<open>fetch_channels\<close> lists when it succeeds.
\<close>

record guild =
  guild_name :: string
  guild_channels :: "nat list"
  guild_roles :: "role list"

text \<open>
  The calls \<^verbatim>\<open>create_server_from_json\<close> issues. A created category is known by
  the position of its creating call in \<open>calls\<close>.
\<close>

datatype call =
    EditName json
  | FetchChannels
  | DeleteChannel nat
  | DeleteRole role
  | CreateRole json
  | CreateCategory json
  | CreateTextChannel json nat
  | CreateVoiceChannel json nat

text \<open>The messages of the script, by the place that sends them.\<close>

datatype notice =
    Reply string
  | Apology
  | NotAdmin
  | AlreadyInProgress
  | StartConfirmation string
  | Greeting
  | DMForbidden
  | StartFailed
  | GuildNotVisible
  | Rebuilding string
  | JSONStructureError
  | FormatError
  | UnexpectedError exn
  | Success string
  | DiscordError string
  | CriticalError

record world =
  user_conversations :: "nat \<rightharpoonup> session"
  sent :: "(nat \<times> notice) list"
  calls :: "call list"

text \<open>
  The outside: \<open>get_guild\<close> is \<^verbatim>\<open>bot.get_guild\<close>; \<open>completion\<close> is the call to
  the generation service on a history together with the reading of
  \<^verbatim>\<open>choices[0].message.content\<close> (\<open>Inl\<close>: an exception was raised); \<open>loads\<close> is
  \<^verbatim>\<open>json.loads\<close> (\<open>Inl\<close>: the exception it raised); \<open>platform\<close> is the outcome of a call
  against the guild after the calls made before it (\<open>None\<close>: done).
\<close>

record env =
  get_guild :: "nat \<Rightarrow> guild option"
  completion :: "turn list \<Rightarrow> exn + string option"
  loads :: "string \<Rightarrow> exn + json"
  platform :: "call list \<Rightarrow> call \<Rightarrow> exn option"

definition send :: "nat \<Rightarrow> notice \<Rightarrow> world \<Rightarrow> world" where
  "send uid n w = w\<lparr>sent := sent w @ [(uid, n)]\<rparr>"

definition end_session :: "nat \<Rightarrow> world \<Rightarrow> world" where
  "end_session uid w = w\<lparr>user_conversations := (user_conversations w)(uid := None)\<rparr>"

text \<open>One awaited call: it is recorded, and the platform answers.\<close>

definition api :: "env \<Rightarrow> call \<Rightarrow> world \<Rightarrow> exn option \<times> world" where
  "api e c w = (platform e (calls w) c, w\<lparr>calls := calls w @ [c]\<rparr>)"

text \<open>Sequencing inside a \<^verbatim>\<open>try\<close> block: the first exception ends the block.\<close>

definition and_then ::
  "exn option \<times> world \<Rightarrow> (world \<Rightarrow> exn option \<times> world) \<Rightarrow> exn option \<times> world" where
  "and_then r f = (case r of (None, w) \<Rightarrow> f w | (Some x, w) \<Rightarrow> (Some x, w))"

subsection \<open>The start command\<close>

text \<open>
  \<^verbatim>\<open>start_command\<close>. The interaction carries the invoking user, whether that user
  administers the guild, the guild, and what opening the DM and sending the greeting
  does (\<open>None\<close>: delivered).
\<close>

record interaction =
  user_id :: nat
  administrator :: bool
  from_guild :: nat
  from_guild_name :: string
  dm_outcome :: "exn option"

definition start_command :: "interaction \<Rightarrow> world \<Rightarrow> world" where
  "start_command i w =
     (if \<not> administrator i then send (user_id i) NotAdmin w
      else if user_id i \<in> dom (user_conversations w) then send (user_id i) AlreadyInProgress w
      else
        let w1 = w\<lparr>user_conversations := (user_conversations w)
                     (user_id i \<mapsto> \<lparr>messages = [SystemTurn], guild_id = from_guild i\<rparr>)\<rparr>;
            w2 = send (user_id i) (StartConfirmation (from_guild_name i)) w1
        in case dm_outcome i of
             None \<Rightarrow> send (user_id i) Greeting w2
           | Some (Forbidden t) \<Rightarrow> end_session (user_id i) (send (user_id i) DMForbidden w2)
           | Some x \<Rightarrow> end_session (user_id i) (send (user_id i) StartFailed w2))"

subsection \<open>Extraction of the fenced payload\<close>

definition fence_marker :: string where
  "fence_marker = ''```json''"

definition fence_open :: string where
  "fence_open = ''```json\<newline>''"

definition fence_close :: string where
  "fence_close = ''\<newline>```''"

text \<open>
  \<^verbatim>\<open>ai_response.split("```json\n")[1].split("\n```")[0]\<close>: the string handed to
  \<^verbatim>\<open>json.loads\<close>, or the IndexError of the first subscript.
\<close>

definition extract_json_string :: "string \<Rightarrow> exn + string" where
  "extract_json_string ai_response =
     (case list_index (str_split fence_open ai_response) 1 of
        Inl x \<Rightarrow> Inl x
      | Inr rest \<Rightarrow> list_index (str_split fence_close rest) 0)"

subsection \<open>The reconfiguration\<close>

text \<open>The channel wipe: \<^verbatim>\<open>channel.delete\<close> stands unguarded in the outer try.\<close>

fun delete_channels :: "env \<Rightarrow> nat list \<Rightarrow> world \<Rightarrow> exn option \<times> world" where
  "delete_channels e [] w = (None, w)"
| "delete_channels e (c # cs) w =
     (case api e (DeleteChannel c) w of
        (None, w') \<Rightarrow> delete_channels e cs w'
      | (Some x, w') \<Rightarrow> (Some x, w'))"

text \<open>
  The role wipe: the default role and integration roles are skipped; of the exceptions
  of \<^verbatim>\<open>role.delete\<close> only Forbidden is caught.
\<close>

fun delete_roles :: "env \<Rightarrow> role list \<Rightarrow> world \<Rightarrow> exn option \<times> world" where
  "delete_roles e [] w = (None, w)"
| "delete_roles e (r # rs) w =
     (if is_default r \<or> is_integration r then delete_roles e rs w
      else case api e (DeleteRole r) w of
             (None, w') \<Rightarrow> delete_roles e rs w'
           | (Some (Forbidden t), w') \<Rightarrow> delete_roles e rs w'
           | (Some x, w') \<Rightarrow> (Some x, w'))"

text \<open>
  The loop over \<^verbatim>\<open>data["roles"]\<close>. \<^verbatim>\<open>role_info.get\<close> stands outside the inner
  try, so an entry that is not a dict raises to the outer handler; a failed creation is
  caught and the loop goes on.
\<close>

fun create_roles :: "env \<Rightarrow> json list \<Rightarrow> world \<Rightarrow> exn option \<times> world" where
  "create_roles e [] w = (None, w)"
| "create_roles e (role_info # rest) w =
     (case role_info of
        JObj kv \<Rightarrow>
          (let role_name = dict_get kv ''name'' JNull in
           if truthy role_name \<and> role_name \<noteq> JStr ''@everyone''
           then create_roles e rest (snd (api e (CreateRole role_name) w))
           else create_roles e rest w)
      | _ \<Rightarrow> (Some AttributeError, w))"

text \<open>
  The loop over \<^verbatim>\<open>category_info["channels"]\<close>. The name and the lowered type are
  read before the name is tested, outside the inner try: an entry that is not a dict, or
  a type that is not a string, raises to the handler of the category. A type that is
  neither \<^verbatim>\<open>text\<close> nor \<^verbatim>\<open>voice\<close> matches no branch.
\<close>

fun create_channels :: "env \<Rightarrow> nat \<Rightarrow> json list \<Rightarrow> world \<Rightarrow> exn option \<times> world" where
  "create_channels e new_category [] w = (None, w)"
| "create_channels e new_category (channel_info # rest) w =
     (case channel_info of
        JObj kv \<Rightarrow>
          (let channel_name = dict_get kv ''name'' JNull in
           case dict_get kv ''type'' (JStr ''text'') of
             JStr t \<Rightarrow>
               (let channel_type = lower t in
                if \<not> truthy channel_name then create_channels e new_category rest w
                else if channel_type = ''text''
                then create_channels e new_category rest
                       (snd (api e (CreateTextChannel channel_name new_category) w))
                else if channel_type = ''voice''
                then create_channels e new_category rest
                       (snd (api e (CreateVoiceChannel channel_name new_category) w))
                else create_channels e new_category rest w)
           | _ \<Rightarrow> (Some AttributeError, w))
      | _ \<Rightarrow> (Some AttributeError, w))"


text \<open>
  The channels of one created category, inside the try of the category: whatever is
  raised there is caught, and the next category follows.
\<close>

definition category_channels :: "env \<Rightarrow> nat \<Rightarrow> (string \<times> json) list \<Rightarrow> world \<Rightarrow> world" where
  "category_channels e new_category kv w =
     (case map_of kv ''channels'' of
        None \<Rightarrow> w
      | Some chs \<Rightarrow>
          if \<not> truthy chs then w
          else case iterate chs of
                 Inl x \<Rightarrow> w
               | Inr xs \<Rightarrow> snd (create_channels e new_category xs w))"

fun create_categories :: "env \<Rightarrow> json list \<Rightarrow> world \<Rightarrow> exn option \<times> world" where
  "create_categories e [] w = (None, w)"
| "create_categories e (category_info # rest) w =
     (case category_info of
        JObj kv \<Rightarrow>
          (let category_name = dict_get kv ''name'' JNull in
           if \<not> truthy category_name then create_categories e rest w
           else case api e (CreateCategory category_name) w of
                  (Some x, w') \<Rightarrow> create_categories e rest w'
                | (None, w') \<Rightarrow>
                    create_categories e rest (category_channels e (length (calls w)) kv w'))
      | _ \<Rightarrow> (Some AttributeError, w))"

text \<open>
  \<^verbatim>\<open>if key in data and data[key]: for x in data[key]: ...\<close> for the two lists of
  the plan.
\<close>

definition for_each_of ::
  "(string \<times> json) list \<Rightarrow> string \<Rightarrow> (json list \<Rightarrow> world \<Rightarrow> exn option \<times> world) \<Rightarrow>
     world \<Rightarrow> exn option \<times> world" where
  "for_each_of kv k body w =
     (case map_of kv k of
        None \<Rightarrow> (None, w)
      | Some v \<Rightarrow>
          if \<not> truthy v then (None, w)
          else case iterate v of
                 Inl x \<Rightarrow> (Some x, w)
               | Inr xs \<Rightarrow> body xs w)"

text \<open>
  The body of the outer try of \<^verbatim>\<open>create_server_from_json\<close>, up to the success
  message: the exception that leaves it, if any, and the world at that point.
\<close>

definition configure :: "env \<Rightarrow> json \<Rightarrow> guild \<Rightarrow> world \<Rightarrow> exn option \<times> world" where
  "configure e data g w =
     (case data of
        JObj kv \<Rightarrow>
          and_then (api e (EditName (dict_get kv ''server_name'' (JStr (guild_name g)))) w) (\<lambda>w.
          and_then (api e FetchChannels w) (\<lambda>w.
          and_then (delete_channels e (guild_channels g) w) (\<lambda>w.
          and_then (delete_roles e (guild_roles g) w) (\<lambda>w.
          and_then (for_each_of kv ''roles'' (create_roles e) w) (\<lambda>w.
          for_each_of kv ''categories'' (create_categories e) w)))))
      | _ \<Rightarrow> (Some AttributeError, w))"

text \<open>The two handlers of the outer try, by the class of the exception.\<close>

definition failure_notice :: "exn \<Rightarrow> notice" where
  "failure_notice x = (if is_http x then DiscordError (http_text x) else CriticalError)"

definition create_server_from_json :: "env \<Rightarrow> nat \<Rightarrow> json \<Rightarrow> guild \<Rightarrow> world \<Rightarrow> world" where
  "create_server_from_json e uid data g w =
     (case configure e data g w of
        (None, w') \<Rightarrow> send uid (Success (guild_name g)) w'
      | (Some x, w') \<Rightarrow> send uid (failure_notice x) w')"

subsection \<open>The hand-over and the message handler\<close>

text \<open>
  The three handlers of \<^verbatim>\<open>handle_json_and_create_server\<close>, in their order: the one
  for JSONDecodeError, the one for IndexError, and the one for any other exception, whose
  message quotes the exception.
\<close>

fun handler_notice :: "exn \<Rightarrow> notice" where
  "handler_notice JSONDecodeError = JSONStructureError"
| "handler_notice IndexError = FormatError"
| "handler_notice x = UnexpectedError x"

text \<open>
  \<^verbatim>\<open>handle_json_and_create_server\<close>. \<^verbatim>\<open>create_server_from_json\<close> catches every
  exception of its body, so what the handlers here see is raised by the extraction or by
  \<^verbatim>\<open>json.loads\<close>.
\<close>

definition handle_json_and_create_server ::
  "env \<Rightarrow> nat \<Rightarrow> string \<Rightarrow> nat \<Rightarrow> world \<Rightarrow> world" where
  "handle_json_and_create_server e uid ai_response gid w =
     (case get_guild e gid of
        None \<Rightarrow> send uid GuildNotVisible w
      | Some g \<Rightarrow>
          (let w1 = send uid (Rebuilding (guild_name g)) w in
           case extract_json_string ai_response of
             Inl x \<Rightarrow> send uid (handler_notice x) w1
           | Inr json_string \<Rightarrow>
               (case loads e json_string of
                  Inl x \<Rightarrow> send uid (handler_notice x) w1
                | Inr server_data \<Rightarrow> create_server_from_json e uid server_data g w1)))"

record message =
  author :: nat
  from_bot :: bool
  in_dm :: bool
  content :: string

definition append_turn :: "nat \<Rightarrow> turn \<Rightarrow> world \<Rightarrow> world" where
  "append_turn uid t w =
     (case user_conversations w uid of
        None \<Rightarrow> w
      | Some s \<Rightarrow> w\<lparr>user_conversations :=
                      (user_conversations w)(uid \<mapsto> s\<lparr>messages := messages s @ [t]\<rparr>)\<rparr>)"

text \<open>
  \<^verbatim>\<open>on_message\<close>. A reply without content makes the test for the marker raise
  TypeError, after the turn is stored; the handler of the try then takes over as for a
  failed call.
\<close>

definition on_message :: "env \<Rightarrow> message \<Rightarrow> world \<Rightarrow> world" where
  "on_message e m w =
     (if from_bot m \<or> \<not> in_dm m then w
      else case user_conversations w (author m) of
        None \<Rightarrow> w
      | Some s \<Rightarrow>
          (let w1 = append_turn (author m) (UserTurn (content m)) w in
           case completion e (messages s @ [UserTurn (content m)]) of
             Inl x \<Rightarrow> end_session (author m) (send (author m) Apology w1)
           | Inr None \<Rightarrow>
               end_session (author m)
                 (send (author m) Apology (append_turn (author m) (AssistantTurn None) w1))
           | Inr (Some ai_response_text) \<Rightarrow>
               (let w2 = append_turn (author m) (AssistantTurn (Some ai_response_text)) w1 in
                if contains fence_marker ai_response_text
                then end_session (author m)
                       (handle_json_and_create_server e (author m) ai_response_text
                          (guild_id s) w2)
                else send (author m) (Reply ai_response_text) w2)))"

subsection \<open>A small guild and one user, for the examples\<close>

definition everyone_role :: role where
  "everyone_role = \<lparr>role_id = 1, role_name = ''@everyone'', is_default = True, is_integration = False\<rparr>"

definition bot_role :: role where
  "bot_role = \<lparr>role_id = 2, role_name = ''Server Architect'', is_default = False, is_integration = True\<rparr>"

definition mods_role :: role where
  "mods_role = \<lparr>role_id = 3, role_name = ''Mods'', is_default = False, is_integration = False\<rparr>"

definition old_guild :: guild where
  "old_guild = \<lparr>guild_name = ''Old'', guild_channels = [10, 11, 12],
                 guild_roles = [everyone_role, bot_role, mods_role]\<rparr>"

text \<open>A parser that knows two payloads, and rejects the rest.\<close>

definition tiny_loads :: "string \<Rightarrow> exn + json" where
  "tiny_loads s =
     (if s = ''{}'' then Inr (JObj [])
      else if s = ''[1]'' then Inr (JArr [JNum 1])
      else Inl JSONDecodeError)"

text \<open>
  The environment of the examples: guild 3 is \<open>old_guild\<close>, the service answers
  \<open>reply\<close>, and the platform answers \<open>p\<close>.
\<close>

definition example_env :: "exn + string option \<Rightarrow> (call list \<Rightarrow> call \<Rightarrow> exn option) \<Rightarrow> env" where
  "example_env reply p =
     \<lparr>get_guild = (\<lambda>g. if g = 3 then Some old_guild else None),
      completion = (\<lambda>h. reply),
      loads = tiny_loads,
      platform = p\<rparr>"

text \<open>Three platforms: one that refuses the rename, one that fails to delete channel 11,
  and one that carries out every call.\<close>

definition rename_refused :: "call list \<Rightarrow> call \<Rightarrow> exn option" where
  "rename_refused cs c =
     (case c of EditName n \<Rightarrow> Some (Forbidden ''Missing Permissions'') | _ \<Rightarrow> None)"

definition channel_11_stuck :: "call list \<Rightarrow> call \<Rightarrow> exn option" where
  "channel_11_stuck cs c =
     (if c = DeleteChannel 11 then Some (HTTPException ''Unknown Channel'') else None)"

definition obliging :: "call list \<Rightarrow> call \<Rightarrow> exn option" where
  "obliging cs c = None"

text \<open>User 7 is in a conversation about guild 3 and writes in the DM channel.\<close>

definition open_world :: world where
  "open_world = \<lparr>user_conversations = [7 \<mapsto> \<lparr>messages = [SystemTurn], guild_id = 3\<rparr>],
                  sent = [], calls = []\<rparr>"

definition dm_from_7 :: message where
  "dm_from_7 = \<lparr>author = 7, from_bot = False, in_dm = True, content = ''go''\<rparr>"

text \<open>A plan of two categories, the second with a text and a voice channel.\<close>

definition two_categories :: "(string \<times> json) list" where
  "two_categories =
     [(''categories'',
       JArr [JObj [(''name'', JStr ''Info''),
                   (''channels'', JArr [JObj [(''name'', JStr ''rules'')]])],
             JObj [(''name'', JStr ''Main''),
                   (''channels'',
                    JArr [JObj [(''name'', JStr ''general''), (''type'', JStr ''TEXT'')],
                          JObj [(''name'', JStr ''Lobby''), (''type'', JStr ''Voice'')]])]])]"

section \<open>Properties\<close>

subsection \<open>Splitting at a fence\<close>




lemma contains_prefix: "prefix sub s \<Longrightarrow> contains sub s"
  by (cases s) auto



lemma str_partition_none: "\<not> contains sep s \<Longrightarrow> str_partition sep s = None"
  by (induction s) auto


lemma str_split_none:
  assumes "sep \<noteq> []" and "\<not> contains sep s"
  shows "str_split sep s = [s]"
  using assms(1) str_partition_none [OF assms(2)] by (subst str_split.simps) simp



lemma contains_self: "contains s s"
  by (cases s) auto









subsection \<open>The calls each step adds\<close>

lemma api_world: "snd (api e c w) = w\<lparr>calls := calls w @ [c]\<rparr>"
  by (simp add: api_def)

lemma api_eq: "api e c w = (platform e (calls w) c, w\<lparr>calls := calls w @ [c]\<rparr>)"
  by (simp add: api_def)

lemma delete_channels_no_role_call:
  "DeleteRole r \<in> set (calls (snd (delete_channels e cs w))) \<Longrightarrow> DeleteRole r \<in> set (calls w)"
proof (induction cs arbitrary: w)
  case Nil
  then show ?case by simp
next
  case (Cons c cs)
  show ?case
  proof (cases "platform e (calls w) (DeleteChannel c)")
    case None
    with Cons.prems have "DeleteRole r \<in> set (calls (snd (delete_channels e cs (w\<lparr>calls := calls w @ [DeleteChannel c]\<rparr>))))"
      by (simp add: api_eq)
    from Cons.IH [OF this] show ?thesis by simp
  next
    case (Some x)
    with Cons.prems show ?thesis by (simp add: api_eq)
  qed
qed

lemma delete_roles_only_deletable:
  "DeleteRole r \<in> set (calls (snd (delete_roles e rs w))) \<Longrightarrow>
     DeleteRole r \<in> set (calls w) \<or> (r \<in> set rs \<and> \<not> is_default r \<and> \<not> is_integration r)"
proof (induction rs arbitrary: w)
  case Nil
  then show ?case by simp
next
  case (Cons a rs)
  show ?case
  proof (cases "is_default a \<or> is_integration a")
    case True
    with Cons.prems have "DeleteRole r \<in> set (calls (snd (delete_roles e rs w)))" by auto
    from Cons.IH [OF this] show ?thesis by auto
  next
    case False
    let ?w' = "w\<lparr>calls := calls w @ [DeleteRole a]\<rparr>"
    have step: "DeleteRole r \<in> set (calls (snd (delete_roles e rs ?w'))) \<or> DeleteRole r \<in> set (calls ?w')"
      using Cons.prems False
      by (auto simp: api_eq split: option.splits exn.splits)
    then show ?thesis
    proof
      assume "DeleteRole r \<in> set (calls (snd (delete_roles e rs ?w')))"
      from Cons.IH [OF this] show ?thesis using False by auto
    next
      assume "DeleteRole r \<in> set (calls ?w')"
      then show ?thesis using False by auto
    qed
  qed
qed

lemma create_roles_no_role_call:
  "DeleteRole r \<in> set (calls (snd (create_roles e xs w))) \<Longrightarrow> DeleteRole r \<in> set (calls w)"
proof (induction xs arbitrary: w)
  case Nil
  then show ?case by simp
next
  case (Cons x xs)
  show ?case
  proof (cases x)
    case (JObj kv)
    show ?thesis
    proof (cases "truthy (dict_get kv ''name'' JNull) \<and> dict_get kv ''name'' JNull \<noteq> JStr ''@everyone''")
      case True
      with Cons.prems JObj
      have "DeleteRole r \<in> set (calls (snd (create_roles e xs
              (w\<lparr>calls := calls w @ [CreateRole (dict_get kv ''name'' JNull)]\<rparr>))))"
        by (simp add: api_world Let_def)
      from Cons.IH [OF this] show ?thesis by simp
    next
      case False
      with Cons.prems JObj
      have "DeleteRole r \<in> set (calls (snd (create_roles e xs w)))"
        by (auto simp: Let_def)
      from Cons.IH [OF this] show ?thesis .
    qed
  qed (use Cons.prems in simp_all)
qed

text \<open>One round of the channel loop: it raises, or goes on with at most one call more.\<close>

lemma create_channels_round:
  "create_channels e k (x # xs) w = (Some AttributeError, w) \<or>
   create_channels e k (x # xs) w = create_channels e k xs w \<or>
   (\<exists>n. create_channels e k (x # xs) w
          = create_channels e k xs (w\<lparr>calls := calls w @ [CreateTextChannel n k]\<rparr>)) \<or>
   (\<exists>n. create_channels e k (x # xs) w
          = create_channels e k xs (w\<lparr>calls := calls w @ [CreateVoiceChannel n k]\<rparr>))"
proof (cases x)
  case (JObj kv)
  show ?thesis
  proof (cases "dict_get kv ''type'' (JStr ''text'')")
    case (JStr t)
    with JObj show ?thesis by (simp add: Let_def api_world) blast
  qed (use JObj in simp_all)
qed simp_all

lemma create_channels_no_role_call:
  "DeleteRole r \<in> set (calls (snd (create_channels e k xs w))) \<Longrightarrow> DeleteRole r \<in> set (calls w)"
proof (induction xs arbitrary: w)
  case Nil
  then show ?case by simp
next
  case (Cons x xs)
  from create_channels_round [of e k x xs w] Cons.prems
  consider "DeleteRole r \<in> set (calls w)"
    | w' where "DeleteRole r \<in> set (calls (snd (create_channels e k xs w')))"
        and "set (calls w') \<subseteq> set (calls w) \<union> {c. \<forall>r. c \<noteq> DeleteRole r}"
    by (elim disjE exE) (force+)
  then show ?case
  proof cases
    case 1
    then show ?thesis .
  next
    case 2
    from Cons.IH [OF 2(1)] 2(2) show ?thesis by auto
  qed
qed

lemma category_channels_no_role_call:
  "DeleteRole r \<in> set (calls (category_channels e k kv w)) \<Longrightarrow> DeleteRole r \<in> set (calls w)"
  unfolding category_channels_def
  by (auto split: option.splits if_splits sum.splits dest: create_channels_no_role_call)

lemma create_categories_round:
  "create_categories e (x # xs) w = (Some AttributeError, w) \<or>
   create_categories e (x # xs) w = create_categories e xs w \<or>
   (\<exists>n. create_categories e (x # xs) w
          = create_categories e xs (w\<lparr>calls := calls w @ [CreateCategory n]\<rparr>)) \<or>
   (\<exists>n kv. create_categories e (x # xs) w
          = create_categories e xs
              (category_channels e (length (calls w)) kv (w\<lparr>calls := calls w @ [CreateCategory n]\<rparr>)))"
proof (cases x)
  case (JObj kv)
  show ?thesis
  proof (cases "platform e (calls w) (CreateCategory (dict_get kv ''name'' JNull))")
    case None
    with JObj show ?thesis by (simp add: Let_def api_eq) blast
  next
    case (Some a)
    with JObj show ?thesis by (simp add: Let_def api_eq) blast
  qed
qed simp_all

lemma create_categories_no_role_call:
  "DeleteRole r \<in> set (calls (snd (create_categories e xs w))) \<Longrightarrow> DeleteRole r \<in> set (calls w)"
proof (induction xs arbitrary: w)
  case Nil
  then show ?case by simp
next
  case (Cons x xs)
  let ?P = "\<lambda>w'. DeleteRole r \<in> set (calls (snd (create_categories e xs w')))"
  from create_categories_round [of e x xs w]
  show ?case
  proof (elim disjE exE)
    assume "create_categories e (x # xs) w = (Some AttributeError, w)"
    with Cons.prems show ?thesis by simp
  next
    assume "create_categories e (x # xs) w = create_categories e xs w"
    with Cons.prems have "?P w" by simp
    from Cons.IH [OF this] show ?thesis .
  next
    fix n
    assume "create_categories e (x # xs) w
              = create_categories e xs (w\<lparr>calls := calls w @ [CreateCategory n]\<rparr>)"
    with Cons.prems have "?P (w\<lparr>calls := calls w @ [CreateCategory n]\<rparr>)" by simp
    from Cons.IH [OF this] show ?thesis by simp
  next
    fix n kv
    assume "create_categories e (x # xs) w
              = create_categories e xs
                  (category_channels e (length (calls w)) kv
                     (w\<lparr>calls := calls w @ [CreateCategory n]\<rparr>))"
    with Cons.prems
    have "?P (category_channels e (length (calls w)) kv (w\<lparr>calls := calls w @ [CreateCategory n]\<rparr>))"
      by simp
    from category_channels_no_role_call [OF Cons.IH [OF this]] show ?thesis by simp
  qed
qed

lemma for_each_of_no_role_call:
  assumes body: "\<And>xs w. DeleteRole r \<in> set (calls (snd (body xs w))) \<Longrightarrow> DeleteRole r \<in> set (calls w)"
    and "DeleteRole r \<in> set (calls (snd (for_each_of kv k body w)))"
  shows "DeleteRole r \<in> set (calls w)"
proof (cases "map_of kv k")
  case None
  with assms(2) show ?thesis by (simp add: for_each_of_def)
next
  case (Some v)
  show ?thesis
  proof (cases "truthy v")
    case False
    with Some assms(2) show ?thesis by (simp add: for_each_of_def)
  next
    case True
    show ?thesis
    proof (cases "iterate v")
      case (Inl x)
      with Some True assms(2) show ?thesis by (simp add: for_each_of_def)
    next
      case (Inr xs)
      with Some True assms(2) have "DeleteRole r \<in> set (calls (snd (body xs w)))"
        by (simp add: for_each_of_def)
      then show ?thesis by (rule body)
    qed
  qed
qed

lemma and_then_world:
  "snd (and_then r f) = snd r \<or> snd (and_then r f) = snd (f (snd r))"
  by (cases r; cases "fst r") (auto simp: and_then_def)

lemma configure_no_other_role_call:
  assumes "DeleteRole r \<in> set (calls (snd (configure e data g w)))"
  shows "DeleteRole r \<in> set (calls w) \<or>
         (r \<in> set (guild_roles g) \<and> \<not> is_default r \<and> \<not> is_integration r)"
proof (cases data)
  case (JObj kv)
  let ?Q = "\<lambda>w. DeleteRole r \<in> set (calls w)"
  define w1 where "w1 = snd (api e (EditName (dict_get kv ''server_name'' (JStr (guild_name g)))) w)"
  define w2 where "w2 = snd (api e FetchChannels w1)"
  define w3 where "w3 = snd (delete_channels e (guild_channels g) w2)"
  define w4 where "w4 = snd (delete_roles e (guild_roles g) w3)"
  define w5 where "w5 = snd (for_each_of kv ''roles'' (create_roles e) w4)"
  define w6 where "w6 = snd (for_each_of kv ''categories'' (create_categories e) w5)"
  have q1: "?Q w1 \<Longrightarrow> ?Q w" by (simp add: w1_def api_world)
  have q2: "?Q w2 \<Longrightarrow> ?Q w1" by (simp add: w2_def api_world)
  have q3: "?Q w3 \<Longrightarrow> ?Q w2" unfolding w3_def by (rule delete_channels_no_role_call)
  have q4: "?Q w4 \<Longrightarrow> ?Q w3 \<or> (r \<in> set (guild_roles g) \<and> \<not> is_default r \<and> \<not> is_integration r)"
    unfolding w4_def by (rule delete_roles_only_deletable)
  have q5: "?Q w5 \<Longrightarrow> ?Q w4" unfolding w5_def
    by (rule for_each_of_no_role_call [of r "create_roles e"]) (rule create_roles_no_role_call)
  have q6: "?Q w6 \<Longrightarrow> ?Q w5" unfolding w6_def
    by (rule for_each_of_no_role_call [of r "create_categories e"])
       (rule create_categories_no_role_call)
  let ?f5 = "\<lambda>w. for_each_of kv ''categories'' (create_categories e) w"
  let ?f4 = "\<lambda>w. and_then (for_each_of kv ''roles'' (create_roles e) w) ?f5"
  let ?f3 = "\<lambda>w. and_then (delete_roles e (guild_roles g) w) ?f4"
  let ?f2 = "\<lambda>w. and_then (delete_channels e (guild_channels g) w) ?f3"
  let ?f1 = "\<lambda>w. and_then (api e FetchChannels w) ?f2"
  have s4: "snd (?f4 w4) \<in> {w5, w6}"
    using and_then_world [of "for_each_of kv ''roles'' (create_roles e) w4" ?f5]
    by (auto simp: w5_def w6_def)
  have s3: "snd (?f3 w3) \<in> {w4, w5, w6}"
    using and_then_world [of "delete_roles e (guild_roles g) w3" ?f4] s4
    by (auto simp: w4_def)
  have s2: "snd (?f2 w2) \<in> {w3, w4, w5, w6}"
    using and_then_world [of "delete_channels e (guild_channels g) w2" ?f3] s3
    by (auto simp: w3_def)
  have s1: "snd (?f1 w1) \<in> {w2, w3, w4, w5, w6}"
    using and_then_world [of "api e FetchChannels w1" ?f2] s2
    by (auto simp: w2_def)
  have "snd (and_then (api e (EditName (dict_get kv ''server_name'' (JStr (guild_name g)))) w) ?f1)
          \<in> {w1, w2, w3, w4, w5, w6}"
    using and_then_world
      [of "api e (EditName (dict_get kv ''server_name'' (JStr (guild_name g)))) w" ?f1] s1
    by (auto simp: w1_def)
  then have "snd (configure e data g w) \<in> {w1, w2, w3, w4, w5, w6}"
    by (simp add: JObj configure_def)
  with assms have "?Q w1 \<or> ?Q w2 \<or> ?Q w3 \<or> ?Q w4 \<or> ?Q w5 \<or> ?Q w6" by auto
  with q1 q2 q3 q4 q5 q6 show ?thesis by blast
qed (use assms in \<open>simp_all add: configure_def\<close>)










subsection \<open>Sessions\<close>

text \<open>
  C6. A user has at most one open session: the store maps a user to one session or to
  none. A start invocation by a user who has a session is answered with one message (the
  one for a process already in progress, or, checked first, the one for a user who is
  not an administrator) and changes nothing else: no session is created, and the
  existing one keeps its messages and its guild.
\<close>

theorem start_command_duplicate_rejected:
  "user_conversations w (user_id i) = Some s \<Longrightarrow>
     start_command i w =
       send (user_id i) (if administrator i then AlreadyInProgress else NotAdmin) w \<and>
     user_conversations (start_command i w) = user_conversations w \<and>
     calls (start_command i w) = calls w \<and>
     sent (start_command i w) =
       sent w @ [(user_id i, if administrator i then AlreadyInProgress else NotAdmin)]"
  by (auto simp: start_command_def send_def)

theorem start_command_duplicate_rejected_witness:
  "(let w = \<lparr>user_conversations = [7 \<mapsto> \<lparr>messages = [SystemTurn, UserTurn ''hi''], guild_id = 3\<rparr>],
              sent = [], calls = []\<rparr>;
        i = \<lparr>user_id = 7, administrator = True, from_guild = 4, from_guild_name = ''G'',
             dm_outcome = None\<rparr>
    in user_conversations (start_command i w) 7
         = Some \<lparr>messages = [SystemTurn, UserTurn ''hi''], guild_id = 3\<rparr> \<and>
       sent (start_command i w) = [(7, AlreadyInProgress)])"
  using start_command_duplicate_rejected
    [of "\<lparr>user_conversations = [7 \<mapsto> \<lparr>messages = [SystemTurn, UserTurn ''hi''], guild_id = 3\<rparr>],
              sent = [], calls = []\<rparr>"
        "\<lparr>user_id = 7, administrator = True, from_guild = 4, from_guild_name = ''G'',
             dm_outcome = None\<rparr>"
        "\<lparr>messages = [SystemTurn, UserTurn ''hi''], guild_id = 3\<rparr>"]
  by (simp add: Let_def send_def)

text \<open>
  C7. When the call to the generation service raises, whatever the exception, the user is
  sent the apology and the session of the user is deleted; nothing is done to any guild.
\<close>

theorem generation_failure_ends_session:
  "\<not> from_bot m \<Longrightarrow> in_dm m \<Longrightarrow> user_conversations w (author m) = Some s \<Longrightarrow>
   completion e (messages s @ [UserTurn (content m)]) = Inl x \<Longrightarrow>
     user_conversations (on_message e m w) (author m) = None \<and>
     sent (on_message e m w) = sent w @ [(author m, Apology)] \<and>
     calls (on_message e m w) = calls w"
  by (auto simp: on_message_def append_turn_def send_def end_session_def)

theorem generation_failure_ends_session_witness:
  "user_conversations open_world 7 = Some \<lparr>messages = [SystemTurn], guild_id = 3\<rparr> \<and>
   user_conversations
     (on_message (example_env (Inl OtherException) (\<lambda>cs c. None)) dm_from_7 open_world) 7 = None \<and>
   sent (on_message (example_env (Inl OtherException) (\<lambda>cs c. None)) dm_from_7 open_world)
     = [(7, Apology)]"
  using generation_failure_ends_session
    [of dm_from_7 open_world "\<lparr>messages = [SystemTurn], guild_id = 3\<rparr>"
        "example_env (Inl OtherException) (\<lambda>cs c. None)" OtherException]
  by (simp add: dm_from_7_def open_world_def example_env_def)

lemma extract_raises_only_index: "extract_json_string r = Inl x \<Longrightarrow> x = IndexError"
  by (auto simp: extract_json_string_def list_index_def split: sum.splits if_splits)

text \<open>
  C1. A reply that holds the marker, for a guild that is still visible, but whose payload
  cannot be used: when the opening fence is not found the user is sent the message about
  the wrongly formatted response, and when the parser rejects the payload the message
  about the JSON structure. Both messages ask the user to try again, yet in both cases
  \<^verbatim>\<open>on_message\<close> goes on to \<^verbatim>\<open>del user_conversations[user_id]\<close>: the session is
  gone afterwards, and the next message of the user is ignored.
\<close>

theorem malformed_payload_ends_session:
  "\<not> from_bot m \<Longrightarrow> in_dm m \<Longrightarrow> user_conversations w (author m) = Some s \<Longrightarrow>
   completion e (messages s @ [UserTurn (content m)]) = Inr (Some reply) \<Longrightarrow>
   contains fence_marker reply \<Longrightarrow> get_guild e (guild_id s) = Some g \<Longrightarrow>
     (extract_json_string reply = Inl x \<longrightarrow>
        sent (on_message e m w)
          = sent w @ [(author m, Rebuilding (guild_name g)), (author m, FormatError)]) \<and>
     (extract_json_string reply = Inr json_string \<and>
      loads e json_string = Inl JSONDecodeError \<longrightarrow>
        sent (on_message e m w)
          = sent w @ [(author m, Rebuilding (guild_name g)), (author m, JSONStructureError)]) \<and>
     user_conversations (on_message e m w) (author m) = None \<and>
     (author m' = author m \<longrightarrow> on_message e' m' (on_message e m w) = on_message e m w)"
proof -
  assume a: "\<not> from_bot m" "in_dm m" "user_conversations w (author m) = Some s"
    "completion e (messages s @ [UserTurn (content m)]) = Inr (Some reply)"
    "contains fence_marker reply" "get_guild e (guild_id s) = Some g"
  then have gone: "user_conversations (on_message e m w) (author m) = None"
    by (simp add: on_message_def Let_def end_session_def)
  from a have "extract_json_string reply = Inl x \<longrightarrow>
        sent (on_message e m w)
          = sent w @ [(author m, Rebuilding (guild_name g)), (author m, FormatError)]"
    by (auto simp: on_message_def handle_json_and_create_server_def Let_def append_turn_def
        send_def end_session_def dest: extract_raises_only_index)
  moreover from a have "extract_json_string reply = Inr json_string \<and>
      loads e json_string = Inl JSONDecodeError \<longrightarrow>
        sent (on_message e m w)
          = sent w @ [(author m, Rebuilding (guild_name g)), (author m, JSONStructureError)]"
    by (simp add: on_message_def handle_json_and_create_server_def Let_def append_turn_def
        send_def end_session_def)
  moreover from gone
  have "author m' = author m \<longrightarrow> on_message e' m' (on_message e m w) = on_message e m w"
    by (simp add: on_message_def [of e' m'])
  ultimately show ?thesis using gone by simp
qed

lemma example_malformed:
  "contains fence_marker ''```json\<newline>{not valid\<newline>```'' \<and>
   extract_json_string ''```json\<newline>{not valid\<newline>```'' = Inr ''{not valid''"
  by code_simp

lemma example_unfenced:
  "contains fence_marker ''```json {}```'' \<and>
   extract_json_string ''```json {}```'' = Inl IndexError"
  by code_simp

theorem malformed_payload_ends_session_witness:
  "user_conversations open_world 7 = Some \<lparr>messages = [SystemTurn], guild_id = 3\<rparr> \<and>
   sent (on_message (example_env (Inr (Some ''```json\<newline>{not valid\<newline>```'')) obliging)
           dm_from_7 open_world)
     = [(7, Rebuilding ''Old''), (7, JSONStructureError)] \<and>
   user_conversations
     (on_message (example_env (Inr (Some ''```json\<newline>{not valid\<newline>```'')) obliging)
           dm_from_7 open_world) 7 = None \<and>
   sent (on_message (example_env (Inr (Some ''```json {}```'')) obliging) dm_from_7 open_world)
     = [(7, Rebuilding ''Old''), (7, FormatError)] \<and>
   user_conversations
     (on_message (example_env (Inr (Some ''```json {}```'')) obliging) dm_from_7 open_world) 7
     = None \<and>
   on_message (example_env (Inr (Some ''{}'')) obliging) dm_from_7
     (on_message (example_env (Inr (Some ''```json\<newline>{not valid\<newline>```'')) obliging)
        dm_from_7 open_world)
     = on_message (example_env (Inr (Some ''```json\<newline>{not valid\<newline>```'')) obliging)
        dm_from_7 open_world"
proof -
  let ?s = "\<lparr>messages = [SystemTurn], guild_id = 3\<rparr>"
  let ?a = "''```json\<newline>{not valid\<newline>```''"
  let ?b = "''```json {}```''"
  have m: "\<not> from_bot dm_from_7" "in_dm dm_from_7" by (simp_all add: dm_from_7_def)
  have s: "user_conversations open_world (author dm_from_7) = Some ?s"
    by (simp add: dm_from_7_def open_world_def)
  have ca: "completion (example_env (Inr (Some ?a)) obliging) (messages ?s @ [UserTurn (content dm_from_7)])
              = Inr (Some ?a)"
    and cb: "completion (example_env (Inr (Some ?b)) obliging) (messages ?s @ [UserTurn (content dm_from_7)])
              = Inr (Some ?b)"
    by (simp_all add: example_env_def)
  have ga: "get_guild (example_env (Inr (Some ?a)) obliging) (guild_id ?s) = Some old_guild"
    and gb: "get_guild (example_env (Inr (Some ?b)) obliging) (guild_id ?s) = Some old_guild"
    by (simp_all add: example_env_def)
  have la: "loads (example_env (Inr (Some ?a)) obliging) ''{not valid'' = Inl JSONDecodeError"
    by (simp add: example_env_def tiny_loads_def)
  note ta = malformed_payload_ends_session
    [OF m s ca example_malformed [THEN conjunct1] ga, of IndexError "''{not valid''" dm_from_7
        "example_env (Inr (Some ''{}'')) obliging"]
  note tb = malformed_payload_ends_session
    [OF m s cb example_unfenced [THEN conjunct1] gb, of IndexError "''''" dm_from_7
        "example_env (Inr (Some ''{}'')) obliging"]
  from ta example_malformed la tb example_unfenced s show ?thesis
    by (simp add: dm_from_7_def open_world_def old_guild_def)
qed

subsection \<open>The hand-over\<close>

text \<open>
  C8. When \<^verbatim>\<open>bot.get_guild\<close> has no guild for the session's identifier, the hand-over
  stops before any call against the platform and tells the user that the server can no
  longer be seen.
\<close>

theorem unreachable_guild_no_mutation:
  "get_guild e gid = None \<Longrightarrow>
     calls (handle_json_and_create_server e uid ai_response gid w) = calls w \<and>
     sent (handle_json_and_create_server e uid ai_response gid w)
       = sent w @ [(uid, GuildNotVisible)] \<and>
     user_conversations (handle_json_and_create_server e uid ai_response gid w)
       = user_conversations w"
  by (simp add: handle_json_and_create_server_def send_def)

theorem unreachable_guild_no_mutation_witness:
  "get_guild (example_env (Inl OtherException) (\<lambda>cs c. None)) 4 = None \<and>
   calls (handle_json_and_create_server (example_env (Inl OtherException) (\<lambda>cs c. None)) 7
            ''```json\<newline>{}\<newline>```'' 4 open_world) = [] \<and>
   sent (handle_json_and_create_server (example_env (Inl OtherException) (\<lambda>cs c. None)) 7
            ''```json\<newline>{}\<newline>```'' 4 open_world) = [(7, GuildNotVisible)]"
  using unreachable_guild_no_mutation
    [of "example_env (Inl OtherException) (\<lambda>cs c. None)" 4 7
        "''```json\<newline>{}\<newline>```''" open_world]
  by (simp add: example_env_def open_world_def)

text \<open>
  C10. The payload is not tested for being an object. When the fenced payload parses to a
  value that is not an object, the reconfiguration is invoked with that value; its first
  statement raises, the last handler of \<^verbatim>\<open>create_server_from_json\<close> catches it, and the
  user is sent the message of the critical, unexpected error (not one of the two messages
  for a malformed payload). No call reaches the platform.
\<close>

theorem non_object_payload_critical_error:
  "get_guild e gid = Some g \<Longrightarrow> extract_json_string ai_response = Inr json_string \<Longrightarrow>
   loads e json_string = Inr v \<Longrightarrow> \<not> is_object v \<Longrightarrow>
     handle_json_and_create_server e uid ai_response gid w
       = create_server_from_json e uid v g (send uid (Rebuilding (guild_name g)) w) \<and>
     calls (handle_json_and_create_server e uid ai_response gid w) = calls w \<and>
     sent (handle_json_and_create_server e uid ai_response gid w)
       = sent w @ [(uid, Rebuilding (guild_name g)), (uid, CriticalError)]"
  by (cases v)
     (auto simp: handle_json_and_create_server_def create_server_from_json_def configure_def
        send_def failure_notice_def)

lemma extract_array_payload:
  "extract_json_string ''```json\<newline>[1]\<newline>```'' = Inr ''[1]''"
  by code_simp

theorem non_object_payload_critical_error_witness:
  "extract_json_string ''```json\<newline>[1]\<newline>```'' = Inr ''[1]'' \<and>
   tiny_loads ''[1]'' = Inr (JArr [JNum 1]) \<and>
   calls (handle_json_and_create_server (example_env (Inl OtherException) (\<lambda>cs c. None)) 7
            ''```json\<newline>[1]\<newline>```'' 3 open_world) = [] \<and>
   sent (handle_json_and_create_server (example_env (Inl OtherException) (\<lambda>cs c. None)) 7
            ''```json\<newline>[1]\<newline>```'' 3 open_world)
     = [(7, Rebuilding ''Old''), (7, CriticalError)]"
proof -
  let ?e = "example_env (Inl OtherException) (\<lambda>cs c. None)"
  have g: "get_guild ?e 3 = Some old_guild" by (simp add: example_env_def)
  have l: "loads ?e ''[1]'' = Inr (JArr [JNum 1])" by (simp add: example_env_def tiny_loads_def)
  have o: "\<not> is_object (JArr [JNum 1])" by simp
  note r = non_object_payload_critical_error [OF g extract_array_payload l o, of 7 open_world]
  from r [THEN conjunct2] show ?thesis
    by (simp add: extract_array_payload tiny_loads_def open_world_def old_guild_def)
qed

subsection \<open>The role wipe\<close>

text \<open>
  C9. A delete call for a role is issued by the reconfiguration only for a role of the
  guild that is neither the default role nor the role of an integration: any such call
  among the calls afterwards was there before, or is for such a role.
\<close>

theorem role_wipe_spares_default_and_integration:
  "DeleteRole r \<in> set (calls (create_server_from_json e uid data g w)) \<Longrightarrow>
     DeleteRole r \<in> set (calls w) \<or>
     (r \<in> set (guild_roles g) \<and> \<not> is_default r \<and> \<not> is_integration r)"
proof -
  assume a: "DeleteRole r \<in> set (calls (create_server_from_json e uid data g w))"
  have "calls (create_server_from_json e uid data g w) = calls (snd (configure e data g w))"
    by (cases "configure e data g w"; cases "fst (configure e data g w)")
       (auto simp: create_server_from_json_def send_def)
  with a have "DeleteRole r \<in> set (calls (snd (configure e data g w)))" by simp
  then show ?thesis by (rule configure_no_other_role_call)
qed

lemma plan_on_old_guild:
  "calls (create_server_from_json (example_env (Inl OtherException) (\<lambda>cs c. None)) 7
            (JObj [(''server_name'', JStr ''Nova''), (''roles'', JArr [JObj [(''name'', JStr ''Admin'')]])])
            old_guild open_world)
     = [EditName (JStr ''Nova''), FetchChannels, DeleteChannel 10, DeleteChannel 11, DeleteChannel 12,
        DeleteRole mods_role, CreateRole (JStr ''Admin'')]"
  by (simp add: create_server_from_json_def configure_def and_then_def api_def send_def
      for_each_of_def dict_get_def example_env_def old_guild_def open_world_def
      everyone_role_def bot_role_def mods_role_def)

theorem role_wipe_spares_default_and_integration_witness:
  "DeleteRole mods_role \<in> set (calls (create_server_from_json
       (example_env (Inl OtherException) (\<lambda>cs c. None)) 7
       (JObj [(''server_name'', JStr ''Nova''), (''roles'', JArr [JObj [(''name'', JStr ''Admin'')]])])
       old_guild open_world)) \<and>
   DeleteRole mods_role \<notin> set (calls open_world) \<and>
   mods_role \<in> set (guild_roles old_guild) \<and> \<not> is_default mods_role \<and> \<not> is_integration mods_role"
proof -
  have h: "DeleteRole mods_role \<in> set (calls (create_server_from_json
       (example_env (Inl OtherException) (\<lambda>cs c. None)) 7
       (JObj [(''server_name'', JStr ''Nova''), (''roles'', JArr [JObj [(''name'', JStr ''Admin'')]])])
       old_guild open_world))"
    by (simp add: plan_on_old_guild)
  have n: "DeleteRole mods_role \<notin> set (calls open_world)"
    by (simp add: open_world_def)
  from role_wipe_spares_default_and_integration [OF h] n h show ?thesis by blast
qed

subsection \<open>Extraction\<close>







subsection \<open>Rename and channel wipe\<close>

text \<open>
  C2, as stated, fails: when the platform refuses the rename, the only call made is the
  rename; none of the three channels of the guild is deleted, and the user is told of the
  error.
\<close>

theorem rename_failure_counterexample:
  "guild_channels old_guild = [10, 11, 12] \<and>
   calls (create_server_from_json (example_env (Inl OtherException) rename_refused) 7
            (JObj [(''server_name'', JStr ''Nova'')]) old_guild open_world)
     = [EditName (JStr ''Nova'')] \<and>
   sent (create_server_from_json (example_env (Inl OtherException) rename_refused) 7
            (JObj [(''server_name'', JStr ''Nova'')]) old_guild open_world)
     = [(7, DiscordError ''Missing Permissions'')]"
  by (simp add: create_server_from_json_def configure_def and_then_def api_def send_def
      dict_get_def example_env_def old_guild_def open_world_def rename_refused_def
      failure_notice_def)

text \<open>
  C2, amended. A failure of the rename ends the reconfiguration: no channel or role is
  deleted and nothing is created after it, and the user is sent the failure message of the
  exception (the platform's text for an HTTP error, the critical-error message otherwise).
\<close>

theorem rename_failure_aborts:
  "platform e (calls w) (EditName (dict_get kv ''server_name'' (JStr (guild_name g)))) = Some x \<Longrightarrow>
     create_server_from_json e uid (JObj kv) g w
       = send uid (failure_notice x)
           (w\<lparr>calls := calls w @ [EditName (dict_get kv ''server_name'' (JStr (guild_name g)))]\<rparr>)"
  by (simp add: create_server_from_json_def configure_def and_then_def api_def)

theorem rename_failure_aborts_witness:
  "platform (example_env (Inl OtherException) rename_refused) (calls open_world)
     (EditName (dict_get [(''server_name'', JStr ''Nova'')] ''server_name'' (JStr (guild_name old_guild))))
     = Some (Forbidden ''Missing Permissions'') \<and>
   create_server_from_json (example_env (Inl OtherException) rename_refused) 7
       (JObj [(''server_name'', JStr ''Nova'')]) old_guild open_world
     = \<lparr>user_conversations = user_conversations open_world,
        sent = [(7, DiscordError ''Missing Permissions'')],
        calls = [EditName (JStr ''Nova'')]\<rparr>"
proof -
  have h: "platform (example_env (Inl OtherException) rename_refused) (calls open_world)
     (EditName (dict_get [(''server_name'', JStr ''Nova'')] ''server_name'' (JStr (guild_name old_guild))))
     = Some (Forbidden ''Missing Permissions'')"
    by (simp add: example_env_def rename_refused_def)
  from rename_failure_aborts [OF h, of 7] h show ?thesis
    by (simp add: send_def failure_notice_def dict_get_def open_world_def)
qed

lemma delete_channels_first_failure:
  "(\<forall>i<length xs. platform e (calls w @ map DeleteChannel (take i xs)) (DeleteChannel (xs ! i)) = None) \<Longrightarrow>
   platform e (calls w @ map DeleteChannel xs) (DeleteChannel c) = Some x \<Longrightarrow>
   delete_channels e (xs @ c # ys) w = (Some x, w\<lparr>calls := calls w @ map DeleteChannel (xs @ [c])\<rparr>)"
proof (induction xs arbitrary: w)
  case Nil
  then show ?case by (simp add: api_eq)
next
  case (Cons a xs)
  let ?w' = "w\<lparr>calls := calls w @ [DeleteChannel a]\<rparr>"
  from Cons.prems(1) have a: "platform e (calls w) (DeleteChannel a) = None" by force
  have rest: "\<forall>i<length xs. platform e (calls ?w' @ map DeleteChannel (take i xs)) (DeleteChannel (xs ! i)) = None"
  proof (intro allI impI)
    fix i assume "i < length xs"
    then have "Suc i < length (a # xs)" by simp
    with Cons.prems(1) have "platform e (calls w @ map DeleteChannel (take (Suc i) (a # xs))) (DeleteChannel ((a # xs) ! Suc i)) = None"
      by blast
    then show "platform e (calls ?w' @ map DeleteChannel (take i xs)) (DeleteChannel (xs ! i)) = None"
      by simp
  qed
  from Cons.prems(2) have c: "platform e (calls ?w' @ map DeleteChannel xs) (DeleteChannel c) = Some x"
    by simp
  from Cons.IH [OF rest c] a show ?case by (simp add: api_eq)
qed

text \<open>
  C3, as stated, fails: when the deletion of channel 11 fails, channel 12 is never
  tried, and the user is told of the error.
\<close>

theorem channel_wipe_counterexample:
  "guild_channels old_guild = [10, 11, 12] \<and>
   calls (create_server_from_json (example_env (Inl OtherException) channel_11_stuck) 7
            (JObj []) old_guild open_world)
     = [EditName (JStr ''Old''), FetchChannels, DeleteChannel 10, DeleteChannel 11] \<and>
   sent (create_server_from_json (example_env (Inl OtherException) channel_11_stuck) 7
            (JObj []) old_guild open_world)
     = [(7, DiscordError ''Unknown Channel'')]"
  by (simp add: create_server_from_json_def configure_def and_then_def api_def send_def
      dict_get_def example_env_def old_guild_def open_world_def channel_11_stuck_def
      failure_notice_def)

text \<open>
  C3, amended. The channels are deleted in the order listed, up to the first deletion
  that fails: with the rename and the listing done, the channels \<open>xs\<close> deleted and the
  deletion of \<open>c\<close> failing, the calls made are the rename, the listing and the deletions
  of \<open>xs\<close> and \<open>c\<close>. The channels \<open>ys\<close> after \<open>c\<close> are not tried, no role is deleted,
  nothing is created, and the user is sent the failure message of the exception.
\<close>

theorem channel_wipe_stops_at_first_failure:
  assumes rename: "platform e (calls w) (EditName n) = None"
    and fetch: "platform e (calls w @ [EditName n]) FetchChannels = None"
    and n: "n = dict_get kv ''server_name'' (JStr (guild_name g))"
    and chans: "guild_channels g = xs @ c # ys"
    and before: "\<forall>i<length xs.
        platform e (calls w @ [EditName n, FetchChannels] @ map DeleteChannel (take i xs))
          (DeleteChannel (xs ! i)) = None"
    and failing: "platform e (calls w @ [EditName n, FetchChannels] @ map DeleteChannel xs)
          (DeleteChannel c) = Some x"
  shows "create_server_from_json e uid (JObj kv) g w
       = send uid (failure_notice x)
           (w\<lparr>calls := calls w @ [EditName n, FetchChannels] @ map DeleteChannel (xs @ [c])\<rparr>)"
proof -
  let ?w2 = "w\<lparr>calls := calls w @ [EditName n, FetchChannels]\<rparr>"
  have "delete_channels e (xs @ c # ys) ?w2
          = (Some x, ?w2\<lparr>calls := calls ?w2 @ map DeleteChannel (xs @ [c])\<rparr>)"
    by (rule delete_channels_first_failure) (use before failing in simp_all)
  with rename fetch n chans show ?thesis
    by (simp add: create_server_from_json_def configure_def and_then_def api_eq)
qed

theorem channel_wipe_stops_at_first_failure_witness:
  "guild_channels old_guild = [10] @ 11 # [12] \<and>
   platform (example_env (Inl OtherException) channel_11_stuck)
     (calls open_world @ [EditName (JStr ''Old''), FetchChannels] @ map DeleteChannel (take 0 [10]))
     (DeleteChannel ([10] ! 0)) = None \<and>
   platform (example_env (Inl OtherException) channel_11_stuck)
     (calls open_world @ [EditName (JStr ''Old''), FetchChannels] @ map DeleteChannel [10])
     (DeleteChannel 11) = Some (HTTPException ''Unknown Channel'') \<and>
   create_server_from_json (example_env (Inl OtherException) channel_11_stuck) 7
       (JObj []) old_guild open_world
     = \<lparr>user_conversations = user_conversations open_world,
        sent = [(7, DiscordError ''Unknown Channel'')],
        calls = [EditName (JStr ''Old''), FetchChannels, DeleteChannel 10, DeleteChannel 11]\<rparr>"
proof -
  let ?e = "example_env (Inl OtherException) channel_11_stuck"
  let ?n = "JStr ''Old''"
  have rename: "platform ?e (calls open_world) (EditName ?n) = None"
    by (simp add: example_env_def channel_11_stuck_def)
  have fetch: "platform ?e (calls open_world @ [EditName ?n]) FetchChannels = None"
    by (simp add: example_env_def channel_11_stuck_def)
  have n: "?n = dict_get [] ''server_name'' (JStr (guild_name old_guild))"
    by (simp add: dict_get_def old_guild_def)
  have chans: "guild_channels old_guild = [10] @ 11 # [12]"
    by (simp add: old_guild_def)
  have before: "\<forall>i<length [10::nat].
      platform ?e (calls open_world @ [EditName ?n, FetchChannels] @ map DeleteChannel (take i [10]))
        (DeleteChannel ([10] ! i)) = None"
    by (simp add: example_env_def channel_11_stuck_def)
  have failing: "platform ?e (calls open_world @ [EditName ?n, FetchChannels] @ map DeleteChannel [10])
        (DeleteChannel 11) = Some (HTTPException ''Unknown Channel'')"
    by (simp add: example_env_def channel_11_stuck_def)
  from channel_wipe_stops_at_first_failure [OF rename fetch n chans before failing, of 7]
  show ?thesis
    by (simp add: send_def failure_notice_def open_world_def old_guild_def example_env_def
        channel_11_stuck_def)
qed

subsection \<open>Channel kinds\<close>



lemma lower_examples:
  "lower ''TEXT'' = ''text''" "lower ''Voice'' = ''voice''" "lower ''text'' = ''text''"
  by code_simp+

lemma two_categories_calls:
  "calls (create_server_from_json (example_env (Inl OtherException) obliging) 7
            (JObj two_categories) old_guild open_world)
     = [EditName (JStr ''Old''), FetchChannels, DeleteChannel 10, DeleteChannel 11,
        DeleteChannel 12, DeleteRole mods_role,
        CreateCategory (JStr ''Info''), CreateTextChannel (JStr ''rules'') 6,
        CreateCategory (JStr ''Main''), CreateTextChannel (JStr ''general'') 8,
        CreateVoiceChannel (JStr ''Lobby'') 8]"
  by (simp add: two_categories_def create_server_from_json_def configure_def and_then_def
      api_def send_def for_each_of_def category_channels_def dict_get_def lower_examples
      Let_def example_env_def old_guild_def open_world_def obliging_def
      everyone_role_def bot_role_def mods_role_def)


end
